theory Spec2Isabelle
  imports Main
begin

section \<open>Python values handled by the dispatcher\<close>

text \<open>
  \<^verbatim>\<open>open\<close> of \<^verbatim>\<open>dissect/target/container.py\<close> accepts a string, a
  \<^verbatim>\<open>pathlib.Path\<close>, a binary stream or a list of such things. The values are kept
  symbolic: a string and a path carry their text, a stream and any other object carry an
  identity. Only a stream has a \<^verbatim>\<open>read\<close> attribute. \<^verbatim>\<open>Path(entry)\<close> is the
  constructor \<open>PyPath\<close> applied to the text (pathlib's clean-up of the text is not
  looked at).
\<close>

datatype pyval =
    PyStr string
  | PyPath string
  | PyStream nat
  | PyOther nat
  | PyList "pyval list"

fun isinstance_list :: "pyval \<Rightarrow> bool" where
  "isinstance_list (PyList _) = True"
| "isinstance_list _ = False"

fun isinstance_str :: "pyval \<Rightarrow> bool" where
  "isinstance_str (PyStr _) = True"
| "isinstance_str _ = False"

fun hasattr_read :: "pyval \<Rightarrow> bool" where
  "hasattr_read (PyStream _) = True"
| "hasattr_read _ = False"

type_synonym args = "pyval list"
type_synonym kwargs = "(string \<times> pyval) list"

section \<open>Exceptions\<close>

text \<open>
  The two messages of \<^verbatim>\<open>open\<close> are f-strings over \<^verbatim>\<open>item\<close>; the model keeps the
  template and the interpolated value apart. The exception classes that the handlers of
  \<^verbatim>\<open>open\<close> tell apart are \<^verbatim>\<open>ImportError\<close> (with its subclasses), the other
  subclasses of \<^verbatim>\<open>Exception\<close>, and the exceptions that derive from
  \<^verbatim>\<open>BaseException\<close> only (\<^verbatim>\<open>KeyboardInterrupt\<close>, \<^verbatim>\<open>SystemExit\<close>), which
  \<^verbatim>\<open>except Exception\<close> does not catch. \<^verbatim>\<open>ContainerError\<close> carries its message and
  its \<^verbatim>\<open>cause\<close>.
\<close>

datatype message =
    Failed_to_open_container pyval
  | Failed_to_detect_container_for pyval

datatype exn =
    ImportError string
  | IndexError string
  | NotImplementedError
  | OtherException string
  | NonException string
  | ContainerError message "exn option"

fun isinstance_ImportError :: "exn \<Rightarrow> bool" where
  "isinstance_ImportError (ImportError _) = True"
| "isinstance_ImportError _ = False"

fun isinstance_Exception :: "exn \<Rightarrow> bool" where
  "isinstance_Exception (NonException _) = False"
| "isinstance_Exception _ = True"

section \<open>Container kinds and instances\<close>

datatype kind =
    EwfContainer
  | VmdkContainer
  | VhdxContainer
  | VhdContainer
  | QCow2Container
  | VdiContainer
  | SplitContainer
  | RawContainer

text \<open>The attributes set by \<^verbatim>\<open>Container.__init__\<close>, and the class of the instance.\<close>

record container =
  cls :: kind
  fh :: pyval
  size_c :: int
  vs :: "pyval option"

definition seekable :: "container \<Rightarrow> bool" where
  "seekable self = True"

text \<open>
  The concrete container classes live in \<^verbatim>\<open>dissect.target.containers.*\<close> and are
  reached through \<^verbatim>\<open>import_lazy\<close>; they are parameters of the model. For each kind:
  whether resolving the lazily imported class raises (\<open>None\<close>: it resolves), what its
  \<^verbatim>\<open>detect_fh\<close> and \<^verbatim>\<open>detect_path\<close> answer or raise, and what its constructor
  builds or raises. The three are functions of their arguments.
\<close>

record backends =
  import_lazy :: "kind \<Rightarrow> exn option"
  detect_fh :: "kind \<Rightarrow> pyval \<Rightarrow> pyval \<Rightarrow> exn + bool"
  detect_path :: "kind \<Rightarrow> pyval \<Rightarrow> pyval \<Rightarrow> exn + bool"
  init :: "kind \<Rightarrow> pyval \<Rightarrow> args \<Rightarrow> kwargs \<Rightarrow> exn + container"

text \<open>
  What \<^verbatim>\<open>open\<close> does besides returning or raising: the calls it makes on a
  candidate, and the warning it logs.
\<close>

datatype event =
    Detect kind pyval
  | DetectFh kind pyval pyval
  | DetectPath kind pyval pyval
  | Init kind pyval args kwargs
  | Warning kind exn

fun event_kind :: "event \<Rightarrow> kind" where
  "event_kind (Detect k _) = k"
| "event_kind (DetectFh k _ _) = k"
| "event_kind (DetectPath k _ _) = k"
| "event_kind (Init k _ _ _) = k"
| "event_kind (Warning k _) = k"

fun is_detect_fh_or_path :: "event \<Rightarrow> bool" where
  "is_detect_fh_or_path (DetectFh _ _ _) = True"
| "is_detect_fh_or_path (DetectPath _ _ _) = True"
| "is_detect_fh_or_path _ = False"

section \<open>\<^verbatim>\<open>Container.detect\<close>\<close>

text \<open>\<^verbatim>\<open>item[0]\<close> on a list: \<^verbatim>\<open>IndexError\<close> when the list is empty.\<close>

fun getitem0 :: "pyval list \<Rightarrow> exn + pyval" where
  "getitem0 [] = Inl (IndexError ''list index out of range'')"
| "getitem0 (x # _) = Inr x"

definition detect :: "backends \<Rightarrow> kind \<Rightarrow> pyval \<Rightarrow> (exn + bool) \<times> event list" where
  "detect B c item =
     (case (case item of PyList xs \<Rightarrow> getitem0 xs | _ \<Rightarrow> Inr item) of
        Inl e \<Rightarrow> (Inl e, [])
      | Inr i \<Rightarrow>
          if hasattr_read i then (detect_fh B c i item, [DetectFh c i item])
          else (detect_path B c i item, [DetectPath c i item]))"

section \<open>\<^verbatim>\<open>open\<close>\<close>

definition containers :: "kind list" where
  "containers =
     [EwfContainer, VmdkContainer, VhdxContainer, VhdContainer,
      QCow2Container, VdiContainer, SplitContainer, RawContainer]"

definition normalize_item :: "pyval \<Rightarrow> pyval" where
  "normalize_item item =
     (case item of
        PyList entries \<Rightarrow>
          PyList (map (\<lambda>entry. case entry of PyStr s \<Rightarrow> PyPath s | _ \<Rightarrow> entry) entries)
      | PyStr s \<Rightarrow> PyPath s
      | _ \<Rightarrow> item)"

text \<open>
  The expression \<^verbatim>\<open>container.detect(item)\<close>: the lazily imported class is resolved
  first, then \<^verbatim>\<open>Container.detect\<close> runs.
\<close>

definition call_detect :: "backends \<Rightarrow> kind \<Rightarrow> pyval \<Rightarrow> (exn + bool) \<times> event list" where
  "call_detect B c item =
     (case import_lazy B c of
        Some e \<Rightarrow> (Inl e, [Detect c item])
      | None \<Rightarrow> (case detect B c item of (r, es) \<Rightarrow> (r, Detect c item # es)))"

text \<open>
  The body of the \<^verbatim>\<open>try\<close>: \<open>Inr (Some obj)\<close> is \<^verbatim>\<open>return container(item, *args, **kwargs)\<close>,
  \<open>Inr None\<close> is a false \<^verbatim>\<open>detect\<close>, \<open>Inl e\<close> is an exception leaving the body.
\<close>

definition try_body ::
  "backends \<Rightarrow> kind \<Rightarrow> pyval \<Rightarrow> args \<Rightarrow> kwargs \<Rightarrow> (exn + container option) \<times> event list" where
  "try_body B c item as kw =
     (case call_detect B c item of
        (Inl e, es) \<Rightarrow> (Inl e, es)
      | (Inr False, es) \<Rightarrow> (Inr None, es)
      | (Inr True, es) \<Rightarrow>
          (case init B c item as kw of
             Inl e \<Rightarrow> (Inl e, es @ [Init c item as kw])
           | Inr obj \<Rightarrow> (Inr (Some obj), es @ [Init c item as kw])))"

text \<open>The \<^verbatim>\<open>for\<close> loop with its two handlers, and the \<^verbatim>\<open>raise\<close> after it.\<close>

fun probe ::
  "backends \<Rightarrow> pyval \<Rightarrow> args \<Rightarrow> kwargs \<Rightarrow> kind list \<Rightarrow> (exn + container) \<times> event list" where
  "probe B item as kw [] =
     (Inl (ContainerError (Failed_to_detect_container_for item) None), [])"
| "probe B item as kw (c # cs) =
     (case try_body B c item as kw of
        (Inr (Some obj), es) \<Rightarrow> (Inr obj, es)
      | (Inr None, es) \<Rightarrow>
          (case probe B item as kw cs of (r, es') \<Rightarrow> (r, es @ es'))
      | (Inl e, es) \<Rightarrow>
          if isinstance_ImportError e then
            (case probe B item as kw cs of (r, es') \<Rightarrow> (r, es @ Warning c e # es'))
          else if isinstance_Exception e then
            (Inl (ContainerError (Failed_to_open_container item) (Some e)), es)
          else (Inl e, es))"

definition open_container ::
  "backends \<Rightarrow> pyval \<Rightarrow> args \<Rightarrow> kwargs \<Rightarrow> (exn + container) \<times> event list" where
  "open_container B item as kw = probe B (normalize_item item) as kw containers"

section \<open>Predicates on one iteration of the loop\<close>

text \<open>
  A candidate is \<open>skipped\<close> when its iteration neither returns nor raises out of
  \<^verbatim>\<open>open\<close>: its \<^verbatim>\<open>detect\<close> is false, or an \<^verbatim>\<open>ImportError\<close> leaves the body of
  the \<^verbatim>\<open>try\<close>. It \<open>declines\<close> when the call of its \<^verbatim>\<open>detect\<close> alone says so:
  false, or an \<^verbatim>\<open>ImportError\<close>.
\<close>

definition skipped :: "backends \<Rightarrow> pyval \<Rightarrow> args \<Rightarrow> kwargs \<Rightarrow> kind \<Rightarrow> bool" where
  "skipped B item as kw c =
     (case fst (try_body B c item as kw) of
        Inr None \<Rightarrow> True
      | Inr (Some _) \<Rightarrow> False
      | Inl e \<Rightarrow> isinstance_ImportError e)"

definition declines :: "backends \<Rightarrow> pyval \<Rightarrow> kind \<Rightarrow> bool" where
  "declines B item c =
     (case fst (call_detect B c item) of
        Inr b \<Rightarrow> \<not> b
      | Inl e \<Rightarrow> isinstance_ImportError e)"

definition unavailable :: "backends \<Rightarrow> kind \<Rightarrow> bool" where
  "unavailable B c = (case import_lazy B c of Some e \<Rightarrow> isinstance_ImportError e | None \<Rightarrow> False)"

text \<open>The input that a recorded call received (a warning has none).\<close>

fun event_input :: "event \<Rightarrow> pyval option" where
  "event_input (Detect _ item) = Some item"
| "event_input (DetectFh _ _ original) = Some original"
| "event_input (DetectPath _ _ original) = Some original"
| "event_input (Init _ item _ _) = Some item"
| "event_input (Warning _ _) = None"

section \<open>Example backends\<close>

definition plain_init :: "kind \<Rightarrow> pyval \<Rightarrow> args \<Rightarrow> kwargs \<Rightarrow> exn + container" where
  "plain_init k item as kw = Inr \<lparr>cls = k, fh = item, size_c = 0, vs = None\<rparr>"

definition vhdx_backends :: backends where
  "vhdx_backends =
     \<lparr>import_lazy = (\<lambda>k. if k = EwfContainer then Some (ImportError ''dissect.evidence'') else None),
      detect_fh = (\<lambda>k fh original. Inr (k = RawContainer)),
      detect_path = (\<lambda>k path original. Inr (k = VhdxContainer \<or> k = RawContainer)),
      init = plain_init\<rparr>"

definition late_import_backends :: backends where
  "late_import_backends =
     \<lparr>import_lazy = (\<lambda>k. None),
      detect_fh = (\<lambda>k fh original. Inr (k = RawContainer)),
      detect_path = (\<lambda>k path original. Inr (k = EwfContainer \<or> k = RawContainer)),
      init = (\<lambda>k item as kw.
        if k = EwfContainer then Inl (ImportError ''zlib'') else plain_init k item as kw)\<rparr>"



definition no_ewf_backends :: backends where
  "no_ewf_backends =
     \<lparr>import_lazy = (\<lambda>k. if k = EwfContainer then Some (ImportError ''dissect.evidence'') else None),
      detect_fh = (\<lambda>k fh original. Inr (k = VhdContainer \<or> k = RawContainer)),
      detect_path = (\<lambda>k path original. Inr (k = RawContainer)),
      init = plain_init\<rparr>"

definition split_backends :: backends where
  "split_backends =
     \<lparr>import_lazy = (\<lambda>k. None),
      detect_fh = (\<lambda>k fh original.
        Inr (k = RawContainer \<or>
             (k = SplitContainer \<and> (case original of PyList xs \<Rightarrow> 1 < length xs | _ \<Rightarrow> False)))),
      detect_path = (\<lambda>k path original. Inr (k = RawContainer)),
      init = plain_init\<rparr>"

definition ewf_fault_backends :: backends where
  "ewf_fault_backends =
     \<lparr>import_lazy = (\<lambda>k. None),
      detect_fh = (\<lambda>k fh original. Inr (k = RawContainer)),
      detect_path = (\<lambda>k path original.
        if k = EwfContainer then Inl (OtherException ''truncated header'')
        else Inr (k = RawContainer)),
      init = plain_init\<rparr>"

definition vmdk_fault_backends :: backends where
  "vmdk_fault_backends =
     \<lparr>import_lazy = (\<lambda>k. None),
      detect_fh = (\<lambda>k fh original. Inr (k = RawContainer)),
      detect_path = (\<lambda>k path original.
        if k = VmdkContainer then Inl (OtherException ''truncated header'')
        else Inr (k = RawContainer)),
      init = plain_init\<rparr>"



definition no_backends :: backends where
  "no_backends =
     \<lparr>import_lazy = (\<lambda>k. Some (ImportError ''No module named dissect'')),
      detect_fh = (\<lambda>k fh original. Inr (k = RawContainer)),
      detect_path = (\<lambda>k path original. Inr (k = RawContainer)),
      init = plain_init\<rparr>"

definition forwarding_backends :: backends where
  "forwarding_backends =
     \<lparr>import_lazy = (\<lambda>k. None),
      detect_fh = (\<lambda>k fh original. Inr (k = RawContainer)),
      detect_path = (\<lambda>k path original. Inr (k = RawContainer)),
      init = (\<lambda>k item as kw.
        Inr \<lparr>cls = k, fh = item,
             size_c = (case as of PyOther n # _ \<Rightarrow> int n | _ \<Rightarrow> 0),
             vs = map_of kw ''vs''\<rparr>)\<rparr>"

definition raw_only_backends :: backends where
  "raw_only_backends =
     \<lparr>import_lazy = (\<lambda>k. None),
      detect_fh = (\<lambda>k fh original. Inr (k = RawContainer)),
      detect_path = (\<lambda>k path original. Inr (k = RawContainer)),
      init = plain_init\<rparr>"

definition blocked_backends :: backends where
  "blocked_backends =
     \<lparr>import_lazy = (\<lambda>k. if k = EwfContainer then Some (ImportError ''dissect.evidence'') else None),
      detect_fh = (\<lambda>k fh original. Inr (k = RawContainer)),
      detect_path = (\<lambda>k path original.
        if k = VmdkContainer then Inl (OtherException ''bad descriptor'')
        else Inr (k = RawContainer)),
      init = plain_init\<rparr>"

section \<open>Properties of the loop\<close>

lemma distinct_containers: "distinct containers"
  by (simp add: containers_def)

lemma detect_kinds: "detect B c item = (r, es) \<Longrightarrow> ev \<in> set es \<Longrightarrow> event_kind ev = c"
  by (auto simp: detect_def split: sum.splits if_splits)

lemma call_detect_kinds:
  "call_detect B c item = (r, es) \<Longrightarrow> ev \<in> set es \<Longrightarrow> event_kind ev = c"
  by (auto simp: call_detect_def split: option.splits prod.splits dest: detect_kinds)

lemma try_body_kinds:
  "try_body B c item as kw = (r, es) \<Longrightarrow> ev \<in> set es \<Longrightarrow> event_kind ev = c"
  by (auto simp: try_body_def split: prod.splits sum.splits bool.splits dest: call_detect_kinds)

lemma probe_kinds: "ev \<in> set (snd (probe B item as kw cs)) \<Longrightarrow> event_kind ev \<in> set cs"
proof (induction cs)
  case Nil
  then show ?case by simp
next
  case (Cons c cs)
  then show ?case
    by (auto split: prod.splits sum.splits option.splits if_splits dest: try_body_kinds)
qed

lemma declines_skipped: "declines B item c \<Longrightarrow> skipped B item as kw c"
  by (auto simp: declines_def skipped_def try_body_def split: prod.splits sum.splits bool.splits)

lemma probe_skip_prefix:
  "list_all (skipped B item as kw) pre \<Longrightarrow>
   probe B item as kw (pre @ rest) =
     (fst (probe B item as kw rest), snd (probe B item as kw pre) @ snd (probe B item as kw rest))"
proof (induction pre)
  case Nil
  then show ?case by simp
next
  case (Cons c pre)
  then show ?case
    by (auto simp: skipped_def split: prod.splits sum.splits option.splits)
qed

lemma probe_match:
  assumes "fst (call_detect B k item) = Inr True"
  shows "probe B item as kw (k # post) =
     (case init B k item as kw of
        Inr obj \<Rightarrow> (Inr obj, snd (call_detect B k item) @ [Init k item as kw])
      | Inl e \<Rightarrow>
          if isinstance_ImportError e then
            (fst (probe B item as kw post),
             snd (call_detect B k item) @ Init k item as kw # Warning k e # snd (probe B item as kw post))
          else if isinstance_Exception e then
            (Inl (ContainerError (Failed_to_open_container item) (Some e)),
             snd (call_detect B k item) @ [Init k item as kw])
          else (Inl e, snd (call_detect B k item) @ [Init k item as kw]))"
  using assms by (auto simp: try_body_def split: prod.splits sum.splits bool.splits)

lemma try_body_raises_call:
  "fst (call_detect B k item) = Inl e \<Longrightarrow> try_body B k item as kw = (Inl e, snd (call_detect B k item))"
  by (auto simp: try_body_def split: prod.splits sum.splits bool.splits)

lemma probe_raise:
  assumes "fst (try_body B k item as kw) = Inl e" "isinstance_Exception e" "\<not> isinstance_ImportError e"
  shows "probe B item as kw (k # post) =
     (Inl (ContainerError (Failed_to_open_container item) (Some e)), snd (try_body B k item as kw))"
  using assms by (auto split: prod.splits sum.splits option.splits)

lemma probe_import:
  assumes "fst (try_body B k item as kw) = Inl e" "isinstance_ImportError e"
  shows "probe B item as kw (k # post) =
     (fst (probe B item as kw post),
      snd (try_body B k item as kw) @ Warning k e # snd (probe B item as kw post))"
  using assms by (auto split: prod.splits sum.splits option.splits)



lemma probe_wrapped_origin:
  "fst (probe B item as kw cs) = Inl (ContainerError msg (Some e)) \<Longrightarrow>
   msg = Failed_to_open_container item \<and>
   (\<exists>k \<in> set cs. fst (try_body B k item as kw) = Inl e)"
proof (induction cs)
  case Nil
  then show ?case by simp
next
  case (Cons c cs)
  then show ?case
    by (auto split: prod.splits sum.splits option.splits if_splits)
qed


lemma probe_returned_origin:
  "fst (probe B item as kw cs) = Inr obj \<Longrightarrow>
   \<exists>c \<in> set cs. fst (call_detect B c item) = Inr True \<and> init B c item as kw = Inr obj
     \<and> snd (probe B item as kw cs) \<noteq> [] \<and> last (snd (probe B item as kw cs)) = Init c item as kw"
proof (induction cs)
  case Nil
  then show ?case by simp
next
  case (Cons c cs)
  then show ?case
    by (auto simp: try_body_def split: prod.splits sum.splits option.splits if_splits bool.splits)
qed

lemma detect_inputs: "detect B c item = (r, es) \<Longrightarrow> ev \<in> set es \<Longrightarrow> event_input ev = Some item"
  by (auto simp: detect_def split: sum.splits if_splits)

lemma call_detect_inputs:
  "call_detect B c item = (r, es) \<Longrightarrow> ev \<in> set es \<Longrightarrow> event_input ev = Some item"
  by (auto simp: call_detect_def split: option.splits prod.splits dest: detect_inputs)

lemma try_body_inputs:
  "try_body B c item as kw = (r, es) \<Longrightarrow> ev \<in> set es \<Longrightarrow> event_input ev = Some item"
  by (auto simp: try_body_def split: prod.splits sum.splits bool.splits dest: call_detect_inputs)

lemma probe_inputs:
  "ev \<in> set (snd (probe B item as kw cs)) \<Longrightarrow> event_input ev = None \<or> event_input ev = Some item"
proof (induction cs)
  case Nil
  then show ?case by simp
next
  case (Cons c cs)
  then show ?case
    by (auto split: prod.splits sum.splits option.splits if_splits dest: try_body_inputs)
qed

lemma try_body_empty_list:
  "try_body B c (PyList []) as kw =
     (case import_lazy B c of
        Some e \<Rightarrow> (Inl e, [Detect c (PyList [])])
      | None \<Rightarrow> (Inl (IndexError ''list index out of range''), [Detect c (PyList [])]))"
  by (simp add: try_body_def call_detect_def detect_def split: option.splits)

lemma probe_empty_list_events:
  "ev \<in> set (snd (probe B (PyList []) as kw cs)) \<Longrightarrow> \<not> is_detect_fh_or_path ev"
proof (induction cs)
  case Nil
  then show ?case by simp
next
  case (Cons c cs)
  then show ?case
    by (auto simp: try_body_empty_list split: prod.splits sum.splits option.splits if_splits)
qed

lemma probe_empty_list_raises: "fst (probe B (PyList []) as kw cs) \<noteq> Inr obj"
proof (induction cs)
  case Nil
  then show ?case by simp
next
  case (Cons c cs)
  then show ?case
    by (auto simp: try_body_empty_list split: prod.splits sum.splits option.splits if_splits)
qed


lemma unavailable_skipped: "unavailable B c \<Longrightarrow> skipped B item as kw c"
  by (auto simp: unavailable_def skipped_def try_body_def call_detect_def split: option.splits)

lemma call_detect_first:
  "snd (call_detect B c item) \<noteq> [] \<and> hd (snd (call_detect B c item)) = Detect c item"
  by (simp add: call_detect_def split: option.splits prod.splits)

lemma try_body_first:
  "snd (try_body B c item as kw) \<noteq> [] \<and> hd (snd (try_body B c item as kw)) = Detect c item"
  using call_detect_first [of B c item]
  by (auto simp: try_body_def split: prod.splits sum.splits bool.splits)

lemma probe_first:
  "snd (probe B item as kw (c # cs)) \<noteq> []
   \<and> hd (snd (probe B item as kw (c # cs))) = Detect c item"
  using try_body_first [of B c item as kw]
  by (auto split: prod.splits sum.splits option.splits)

lemma normalize_item_idem: "normalize_item (normalize_item item) = normalize_item item"
proof (cases item)
  case (PyList xs)
  have "map ((\<lambda>entry. case entry of PyStr s \<Rightarrow> PyPath s | _ \<Rightarrow> entry)
        \<circ> (\<lambda>entry. case entry of PyStr s \<Rightarrow> PyPath s | _ \<Rightarrow> entry)) xs =
      map (\<lambda>entry. case entry of PyStr s \<Rightarrow> PyPath s | _ \<Rightarrow> entry) xs"
    by (rule map_cong) (auto split: pyval.splits)
  with PyList show ?thesis by (simp add: normalize_item_def)
qed (simp_all add: normalize_item_def)

section \<open>The claims\<close>

text \<open>
  C1, in the form the code satisfies. When every candidate before \<open>k\<close> in the registry declines (its
  \<^verbatim>\<open>detect\<close> returns false or raises an import failure), \<open>k\<close>'s \<^verbatim>\<open>detect\<close>
  returns true and \<open>k\<close>'s constructor returns an instance, \<^verbatim>\<open>open\<close> returns that
  instance, nothing is called on any candidate after \<open>k\<close>, and the raw kind is the last
  of the registry.
\<close>

theorem open_first_match:
  assumes reg: "containers = pre @ k # post"
    and pre: "list_all (declines B (normalize_item item)) pre"
    and hit: "fst (call_detect B k (normalize_item item)) = Inr True"
    and built: "init B k (normalize_item item) as kw = Inr obj"
  shows "fst (open_container B item as kw) = Inr obj
       \<and> event_kind ` set (snd (open_container B item as kw)) \<inter> set post = {}
       \<and> last containers = RawContainer"
proof -
  let ?it = "normalize_item item"
  have sk: "list_all (skipped B ?it as kw) pre"
    using pre by (simp add: list_all_iff declines_skipped)
  have run: "open_container B item as kw =
      (Inr obj, snd (probe B ?it as kw pre) @ snd (call_detect B k ?it) @ [Init k ?it as kw])"
    unfolding open_container_def reg
    by (simp add: probe_skip_prefix [OF sk] probe_match [OF hit] built del: probe.simps)
  have dis: "distinct (pre @ k # post)"
    using distinct_containers by (simp add: reg)
  have later: "event_kind ev \<notin> set post" if "ev \<in> set (snd (open_container B item as kw))" for ev
  proof -
    from that consider "ev \<in> set (snd (probe B ?it as kw pre))"
      | "ev \<in> set (snd (call_detect B k ?it))" | "ev = Init k ?it as kw"
      by (auto simp: run)
    then show ?thesis
    proof cases
      case 1
      then have "event_kind ev \<in> set pre" by (rule probe_kinds)
      with dis show ?thesis by auto
    next
      case 2
      then have "event_kind ev = k" by (metis call_detect_kinds prod.collapse)
      with dis show ?thesis by auto
    next
      case 3
      with dis show ?thesis by auto
    qed
  qed
  then have none_later: "event_kind ` set (snd (open_container B item as kw)) \<inter> set post = {}"
    by blast
  have returned: "fst (open_container B item as kw) = Inr obj"
    by (simp add: run)
  have "last containers = RawContainer"
    by (simp add: containers_def)
  with returned none_later show ?thesis by blast
qed

theorem open_first_match_witness:
  "fst (open_container vhdx_backends (PyStr ''disk.vhdx'') [] []) =
     Inr \<lparr>cls = VhdxContainer, fh = PyPath ''disk.vhdx'', size_c = 0, vs = None\<rparr>
   \<and> event_kind ` set (snd (open_container vhdx_backends (PyStr ''disk.vhdx'') [] []))
        \<inter> set [VhdContainer, QCow2Container, VdiContainer, SplitContainer, RawContainer] = {}
   \<and> last containers = RawContainer"
proof -
  have reg: "containers = [EwfContainer, VmdkContainer] @ VhdxContainer #
      [VhdContainer, QCow2Container, VdiContainer, SplitContainer, RawContainer]"
    by (simp add: containers_def)
  have pre: "list_all (declines vhdx_backends (normalize_item (PyStr ''disk.vhdx'')))
      [EwfContainer, VmdkContainer]"
    by (simp add: declines_def call_detect_def detect_def normalize_item_def vhdx_backends_def)
  have hit: "fst (call_detect vhdx_backends VhdxContainer (normalize_item (PyStr ''disk.vhdx''))) = Inr True"
    by (simp add: call_detect_def detect_def normalize_item_def vhdx_backends_def)
  have built: "init vhdx_backends VhdxContainer (normalize_item (PyStr ''disk.vhdx'')) [] [] =
      Inr \<lparr>cls = VhdxContainer, fh = PyPath ''disk.vhdx'', size_c = 0, vs = None\<rparr>"
    by (simp add: normalize_item_def vhdx_backends_def plain_init_def)
  show ?thesis
    by (rule open_first_match [OF reg pre hit built])
qed

theorem open_first_match_counterexample:
  "fst (call_detect late_import_backends EwfContainer (normalize_item (PyStr ''image.E01''))) = Inr True
   \<and> fst (open_container late_import_backends (PyStr ''image.E01'') [] []) =
       Inr \<lparr>cls = RawContainer, fh = PyPath ''image.E01'', size_c = 0, vs = None\<rparr>
   \<and> Detect RawContainer (PyPath ''image.E01'')
       \<in> set (snd (open_container late_import_backends (PyStr ''image.E01'') [] []))"
  by (simp add: open_container_def containers_def try_body_def call_detect_def detect_def
      normalize_item_def late_import_backends_def plain_init_def)




text \<open>
  C3, in the form the code satisfies. When the loop reaches candidate \<open>k\<close> and the call
  of \<open>k\<close>'s \<^verbatim>\<open>detect\<close> raises an \<^verbatim>\<open>ImportError\<close> \<open>e\<close>, \<^verbatim>\<open>open\<close> does not
  raise for \<open>k\<close>: it logs the warning for \<open>k\<close> and \<open>e\<close> and goes on with the
  candidates after \<open>k\<close>, in order, and its outcome is the outcome of probing them. So
  \<^verbatim>\<open>open\<close> returns an instance whenever a later candidate \<open>m\<close> is reached (the
  candidates between \<open>k\<close> and \<open>m\<close> are skipped), matches, and its constructor
  returns that instance.
\<close>

theorem open_import_failure_continues:
  assumes reg: "containers = pre @ k # post"
    and pre: "list_all (skipped B (normalize_item item) as kw) pre"
    and imp: "fst (call_detect B k (normalize_item item)) = Inl e"
    and cls: "isinstance_ImportError e"
  shows "fst (open_container B item as kw) = fst (probe B (normalize_item item) as kw post)
       \<and> snd (open_container B item as kw) =
           snd (probe B (normalize_item item) as kw pre)
           @ snd (call_detect B k (normalize_item item))
           @ Warning k e # snd (probe B (normalize_item item) as kw post)
       \<and> (\<forall>mid m rest obj.
             post = mid @ m # rest
             \<and> list_all (skipped B (normalize_item item) as kw) mid
             \<and> fst (call_detect B m (normalize_item item)) = Inr True
             \<and> init B m (normalize_item item) as kw = Inr obj
             \<longrightarrow> fst (open_container B item as kw) = Inr obj)"
proof -
  let ?it = "normalize_item item"
  have body: "try_body B k ?it as kw = (Inl e, snd (call_detect B k ?it))"
    using imp by (rule try_body_raises_call)
  then have raised: "fst (try_body B k ?it as kw) = Inl e" by simp
  have run: "open_container B item as kw =
      (fst (probe B ?it as kw post),
       snd (probe B ?it as kw pre) @ snd (call_detect B k ?it) @ Warning k e # snd (probe B ?it as kw post))"
    unfolding open_container_def reg
    by (simp add: probe_skip_prefix [OF pre] probe_import [OF raised cls] body del: probe.simps)
  have later: "fst (probe B ?it as kw post) = Inr obj"
    if "post = mid @ m # rest" "list_all (skipped B ?it as kw) mid"
      "fst (call_detect B m ?it) = Inr True" "init B m ?it as kw = Inr obj"
    for mid m rest obj
    using that
    by (simp add: probe_skip_prefix [OF that(2)] probe_match [OF that(3)] del: probe.simps)
  from run have res: "fst (open_container B item as kw) = fst (probe B ?it as kw post)"
    and tr: "snd (open_container B item as kw) =
      snd (probe B ?it as kw pre) @ snd (call_detect B k ?it) @ Warning k e # snd (probe B ?it as kw post)"
    by simp_all
  from later res have "\<forall>mid m rest obj.
      post = mid @ m # rest \<and> list_all (skipped B ?it as kw) mid
      \<and> fst (call_detect B m ?it) = Inr True \<and> init B m ?it as kw = Inr obj
      \<longrightarrow> fst (open_container B item as kw) = Inr obj"
    by metis
  with res tr show ?thesis by blast
qed

theorem open_import_failure_continues_witness:
  "fst (open_container no_ewf_backends (PyStream 7) [] []) =
     Inr \<lparr>cls = VhdContainer, fh = PyStream 7, size_c = 0, vs = None\<rparr>
   \<and> Warning EwfContainer (ImportError ''dissect.evidence'')
       \<in> set (snd (open_container no_ewf_backends (PyStream 7) [] []))"
proof -
  let ?post = "[VmdkContainer, VhdxContainer, VhdContainer, QCow2Container, VdiContainer,
      SplitContainer, RawContainer]"
  have reg: "containers = [] @ EwfContainer # ?post"
    by (simp add: containers_def)
  have pre: "list_all (skipped no_ewf_backends (normalize_item (PyStream 7)) [] []) []"
    by simp
  have imp: "fst (call_detect no_ewf_backends EwfContainer (normalize_item (PyStream 7))) =
      Inl (ImportError ''dissect.evidence'')"
    by (simp add: call_detect_def no_ewf_backends_def)
  have cls: "isinstance_ImportError (ImportError ''dissect.evidence'')"
    by simp
  note main = open_import_failure_continues [OF reg pre imp cls]
  have split: "?post = [VmdkContainer, VhdxContainer] @ VhdContainer #
      [QCow2Container, VdiContainer, SplitContainer, RawContainer]"
    by simp
  have mid: "list_all (skipped no_ewf_backends (normalize_item (PyStream 7)) [] [])
      [VmdkContainer, VhdxContainer]"
    by (simp add: skipped_def try_body_def call_detect_def detect_def normalize_item_def
        no_ewf_backends_def)
  have hit: "fst (call_detect no_ewf_backends VhdContainer (normalize_item (PyStream 7))) = Inr True"
    by (simp add: call_detect_def detect_def normalize_item_def no_ewf_backends_def)
  have built: "init no_ewf_backends VhdContainer (normalize_item (PyStream 7)) [] [] =
      Inr \<lparr>cls = VhdContainer, fh = PyStream 7, size_c = 0, vs = None\<rparr>"
    by (simp add: normalize_item_def no_ewf_backends_def plain_init_def)
  from main split mid hit built
  have "fst (open_container no_ewf_backends (PyStream 7) [] []) =
      Inr \<lparr>cls = VhdContainer, fh = PyStream 7, size_c = 0, vs = None\<rparr>"
    by blast
  moreover from main
  have "Warning EwfContainer (ImportError ''dissect.evidence'')
      \<in> set (snd (open_container no_ewf_backends (PyStream 7) [] []))"
    by simp
  ultimately show ?thesis by blast
qed

theorem open_import_failure_continues_counterexample:
  "fst (call_detect blocked_backends EwfContainer (normalize_item (PyStr ''disk.img''))) =
     Inl (ImportError ''dissect.evidence'')
   \<and> fst (call_detect blocked_backends RawContainer (normalize_item (PyStr ''disk.img''))) = Inr True
   \<and> init blocked_backends RawContainer (normalize_item (PyStr ''disk.img'')) [] [] =
       Inr \<lparr>cls = RawContainer, fh = PyPath ''disk.img'', size_c = 0, vs = None\<rparr>
   \<and> fst (open_container blocked_backends (PyStr ''disk.img'') [] []) =
       Inl (ContainerError (Failed_to_open_container (PyPath ''disk.img''))
         (Some (OtherException ''bad descriptor'')))
   \<and> Warning EwfContainer (ImportError ''dissect.evidence'')
       \<in> set (snd (open_container blocked_backends (PyStr ''disk.img'') [] []))"
  by (simp add: open_container_def containers_def try_body_def call_detect_def detect_def
      normalize_item_def blocked_backends_def plain_init_def)

text \<open>
  C4. For an input that is a non-empty list, or not a list at all, \<^verbatim>\<open>Container.detect\<close>
  takes as representative \<open>a\<close> the first element of the list, or the input itself, and
  returns \<^verbatim>\<open>detect_fh(a, item)\<close> when \<open>a\<close> has a \<^verbatim>\<open>read\<close> attribute and
  \<^verbatim>\<open>detect_path(a, item)\<close> otherwise; the second argument is the whole input.
\<close>

theorem detect_dispatch:
  assumes "item = PyList (a # rest) \<or> (\<not> isinstance_list item \<and> a = item)"
  shows "detect B c item =
     (if hasattr_read a then (detect_fh B c a item, [DetectFh c a item])
      else (detect_path B c a item, [DetectPath c a item]))"
  using assms by (auto simp: detect_def split: pyval.splits)

theorem detect_dispatch_witness:
  "detect split_backends SplitContainer (PyList [PyStream 3, PyStream 4]) =
     (Inr True, [DetectFh SplitContainer (PyStream 3) (PyList [PyStream 3, PyStream 4])])"
  using detect_dispatch [of "PyList [PyStream 3, PyStream 4]" "PyStream 3" "[PyStream 4]"
      split_backends SplitContainer]
  by (simp add: split_backends_def)

text \<open>
  C5. \<^verbatim>\<open>open\<close> normalizes its input before probing: a string becomes the path of its
  text; a list keeps its length and order, each string entry becoming a path and every
  other entry staying as it is; an input that is neither a string nor a list is
  unchanged. The first thing \<^verbatim>\<open>open\<close> does is to call the \<^verbatim>\<open>detect\<close> of the first
  candidate on the normalized input, every call it makes on a candidate receives the
  normalized input, and \<^verbatim>\<open>open\<close> on an input does exactly what it does on the
  normalized input (on a string, what it does on the path of that string).
\<close>

theorem open_normalizes_input:
  "normalize_item (PyStr s) = PyPath s
   \<and> (\<exists>ys. normalize_item (PyList xs) = PyList ys
         \<and> list_all2 (\<lambda>x y. if isinstance_str x then \<exists>t. x = PyStr t \<and> y = PyPath t else y = x) xs ys)
   \<and> (\<not> isinstance_str item \<and> \<not> isinstance_list item \<longrightarrow> normalize_item item = item)
   \<and> event_input ` set (snd (open_container B item as kw)) \<subseteq> {None, Some (normalize_item item)}
   \<and> snd (open_container B item as kw) \<noteq> []
   \<and> hd (snd (open_container B item as kw)) = Detect EwfContainer (normalize_item item)
   \<and> open_container B item as kw = open_container B (normalize_item item) as kw
   \<and> open_container B (PyStr s) as kw = open_container B (PyPath s) as kw"
proof -
  have str: "normalize_item (PyStr s) = PyPath s"
    by (simp add: normalize_item_def)
  have "list_all2 (\<lambda>x y. if isinstance_str x then \<exists>t. x = PyStr t \<and> y = PyPath t else y = x) xs
      (map (\<lambda>entry. case entry of PyStr s \<Rightarrow> PyPath s | _ \<Rightarrow> entry) xs)"
    by (induction xs) (auto split: pyval.splits)
  then have lst: "\<exists>ys. normalize_item (PyList xs) = PyList ys
      \<and> list_all2 (\<lambda>x y. if isinstance_str x then \<exists>t. x = PyStr t \<and> y = PyPath t else y = x) xs ys"
    by (simp add: normalize_item_def)
  have other: "\<not> isinstance_str item \<and> \<not> isinstance_list item \<longrightarrow> normalize_item item = item"
    by (cases item) (simp_all add: normalize_item_def)
  have inputs: "event_input ` set (snd (open_container B item as kw)) \<subseteq> {None, Some (normalize_item item)}"
    unfolding open_container_def using probe_inputs by fastforce
  have first: "snd (open_container B item as kw) \<noteq> []
      \<and> hd (snd (open_container B item as kw)) = Detect EwfContainer (normalize_item item)"
    unfolding open_container_def containers_def by (rule probe_first)
  have idem: "open_container B item as kw = open_container B (normalize_item item) as kw"
    by (simp add: open_container_def normalize_item_idem)
  have same: "open_container B (PyStr s) as kw = open_container B (PyPath s) as kw"
    by (simp add: open_container_def normalize_item_def)
  show ?thesis
    by (intro conjI) (rule str lst other inputs first [THEN conjunct1] first [THEN conjunct2] idem same)+
qed

theorem open_normalizes_input_witness:
  "normalize_item (PyStr ''disk.img'') = PyPath ''disk.img''
   \<and> normalize_item (PyList [PyStr ''a.001'', PyStream 1, PyPath ''a.003'']) =
       PyList [PyPath ''a.001'', PyStream 1, PyPath ''a.003'']
   \<and> normalize_item (PyStream 1) = PyStream 1
   \<and> snd (open_container raw_only_backends (PyStream 1) [] []) \<noteq> []
   \<and> hd (snd (open_container raw_only_backends (PyStream 1) [] [])) = Detect EwfContainer (PyStream 1)
   \<and> open_container raw_only_backends (PyStr ''disk.img'') [] [] =
       open_container raw_only_backends (PyPath ''disk.img'') [] []"
proof -
  note main = open_normalizes_input [of "''disk.img''" "[PyStr ''a.001'', PyStream 1, PyPath ''a.003'']"
      "PyStream 1" raw_only_backends "[]" "[]"]
  note a = main [THEN conjunct1]
  note rest1 = main [THEN conjunct2]
  note lst = rest1 [THEN conjunct1]
  note rest2 = rest1 [THEN conjunct2]
  note other = rest2 [THEN conjunct1]
  note rest3 = rest2 [THEN conjunct2, THEN conjunct2]
  note d = rest3 [THEN conjunct1]
  note rest4 = rest3 [THEN conjunct2]
  note e = rest4 [THEN conjunct1]
  note f = rest4 [THEN conjunct2, THEN conjunct2]
  from lst obtain ys where
    ys: "normalize_item (PyList [PyStr ''a.001'', PyStream 1, PyPath ''a.003'']) = PyList ys"
      "list_all2 (\<lambda>x y. if isinstance_str x then \<exists>t. x = PyStr t \<and> y = PyPath t else y = x)
        [PyStr ''a.001'', PyStream 1, PyPath ''a.003''] ys"
    by (elim exE conjE)
  from ys(2) have "ys = [PyPath ''a.001'', PyStream 1, PyPath ''a.003'']"
    by (auto simp: list_all2_Cons1)
  with ys(1) have b: "normalize_item (PyList [PyStr ''a.001'', PyStream 1, PyPath ''a.003'']) =
      PyList [PyPath ''a.001'', PyStream 1, PyPath ''a.003'']"
    by (simp only:)
  from other have c: "normalize_item (PyStream 1) = PyStream 1"
    by simp
  from e have e': "hd (snd (open_container raw_only_backends (PyStream 1) [] [])) =
      Detect EwfContainer (PyStream 1)"
    by (simp only: c)
  show ?thesis
    by (intro conjI) (rule a b c d e' f)+
qed

text \<open>
  C6, in the form the code satisfies. When the loop reaches candidate \<open>k\<close> and the body
  of the \<^verbatim>\<open>try\<close> raises for \<open>k\<close> (from \<^verbatim>\<open>detect\<close> or from the constructor) an
  exception \<open>e\<close> that derives from \<^verbatim>\<open>Exception\<close> and is not an \<^verbatim>\<open>ImportError\<close>,
  \<^verbatim>\<open>open\<close> raises \<^verbatim>\<open>ContainerError\<close> whose message names the normalized input and whose
  cause is \<open>e\<close>. Conversely a \<^verbatim>\<open>ContainerError\<close> with a cause raised by \<^verbatim>\<open>open\<close>
  has that message, and its cause was raised in the body of the \<^verbatim>\<open>try\<close> for some
  candidate of the registry. The error does not record which candidate.
\<close>

theorem open_wrapped_failure:
  "(containers = pre @ k # post
      \<and> list_all (skipped B (normalize_item item) as kw) pre
      \<and> fst (try_body B k (normalize_item item) as kw) = Inl e
      \<and> isinstance_Exception e \<and> \<not> isinstance_ImportError e
    \<longrightarrow> fst (open_container B item as kw) =
          Inl (ContainerError (Failed_to_open_container (normalize_item item)) (Some e)))
   \<and> (fst (open_container B item as kw) = Inl (ContainerError msg (Some cause))
    \<longrightarrow> msg = Failed_to_open_container (normalize_item item)
        \<and> (\<exists>c \<in> set containers. fst (try_body B c (normalize_item item) as kw) = Inl cause))"
proof -
  let ?it = "normalize_item item"
  have fwd: "fst (open_container B item as kw) =
      Inl (ContainerError (Failed_to_open_container ?it) (Some e))"
    if "containers = pre @ k # post" "list_all (skipped B ?it as kw) pre"
      "fst (try_body B k ?it as kw) = Inl e" "isinstance_Exception e" "\<not> isinstance_ImportError e"
    unfolding open_container_def that(1)
    by (simp add: probe_skip_prefix [OF that(2)] probe_raise [OF that(3,4,5)] del: probe.simps)
  have bwd: "msg = Failed_to_open_container ?it
      \<and> (\<exists>c \<in> set containers. fst (try_body B c ?it as kw) = Inl cause)"
    if "fst (open_container B item as kw) = Inl (ContainerError msg (Some cause))"
    using that unfolding open_container_def by (rule probe_wrapped_origin)
  from fwd bwd show ?thesis by blast
qed

theorem open_wrapped_failure_witness:
  "fst (open_container ewf_fault_backends (PyStr ''image.E01'') [] []) =
     Inl (ContainerError (Failed_to_open_container (PyPath ''image.E01''))
       (Some (OtherException ''truncated header'')))"
proof -
  let ?post = "[VmdkContainer, VhdxContainer, VhdContainer, QCow2Container, VdiContainer,
      SplitContainer, RawContainer]"
  have reg: "containers = [] @ EwfContainer # ?post"
    by (simp add: containers_def)
  have pre: "list_all (skipped ewf_fault_backends (normalize_item (PyStr ''image.E01'')) [] []) []"
    by simp
  have raised: "fst (try_body ewf_fault_backends EwfContainer (normalize_item (PyStr ''image.E01'')) [] []) =
      Inl (OtherException ''truncated header'')"
    by (simp add: try_body_def call_detect_def detect_def normalize_item_def ewf_fault_backends_def)
  have cls: "isinstance_Exception (OtherException ''truncated header'')
      \<and> \<not> isinstance_ImportError (OtherException ''truncated header'')"
    by simp
  from reg pre raised cls
  have "fst (open_container ewf_fault_backends (PyStr ''image.E01'') [] []) =
      Inl (ContainerError (Failed_to_open_container (normalize_item (PyStr ''image.E01'')))
        (Some (OtherException ''truncated header'')))"
    by (rule open_wrapped_failure [THEN conjunct1, rule_format, OF conjI [OF _ conjI [OF _ conjI]]])
  then show ?thesis
    by (simp add: normalize_item_def)
qed

theorem open_wrapped_failure_counterexample:
  "fst (open_container ewf_fault_backends (PyPath ''disk.img'') [] []) =
     Inl (ContainerError (Failed_to_open_container (PyPath ''disk.img''))
       (Some (OtherException ''truncated header'')))
   \<and> fst (open_container vmdk_fault_backends (PyPath ''disk.img'') [] []) =
     Inl (ContainerError (Failed_to_open_container (PyPath ''disk.img''))
       (Some (OtherException ''truncated header'')))
   \<and> last (snd (open_container ewf_fault_backends (PyPath ''disk.img'') [] [])) =
       DetectPath EwfContainer (PyPath ''disk.img'') (PyPath ''disk.img'')
   \<and> last (snd (open_container vmdk_fault_backends (PyPath ''disk.img'') [] [])) =
       DetectPath VmdkContainer (PyPath ''disk.img'') (PyPath ''disk.img'')"
  by (simp add: open_container_def containers_def try_body_def call_detect_def detect_def
      normalize_item_def ewf_fault_backends_def vmdk_fault_backends_def)




text \<open>
  C8. When the loop reaches candidate \<open>k\<close> and \<open>k\<close>'s \<^verbatim>\<open>detect\<close> returns true,
  \<^verbatim>\<open>open\<close> calls \<open>k\<close>'s constructor with the normalized input, the caller's positional
  arguments and the caller's keyword arguments, and returns the object the constructor
  returns. Conversely an object returned by \<^verbatim>\<open>open\<close> is the one returned by the
  constructor of a matching candidate on exactly these arguments, and that call is the
  last thing \<^verbatim>\<open>open\<close> does.
\<close>

theorem open_forwards_arguments:
  "(containers = pre @ k # post
      \<and> list_all (skipped B (normalize_item item) as kw) pre
      \<and> fst (call_detect B k (normalize_item item)) = Inr True
    \<longrightarrow> Init k (normalize_item item) as kw \<in> set (snd (open_container B item as kw))
        \<and> (\<forall>obj. init B k (normalize_item item) as kw = Inr obj
              \<longrightarrow> fst (open_container B item as kw) = Inr obj))
   \<and> (fst (open_container B item as kw) = Inr built
    \<longrightarrow> (\<exists>c \<in> set containers.
            fst (call_detect B c (normalize_item item)) = Inr True
          \<and> init B c (normalize_item item) as kw = Inr built
          \<and> last (snd (open_container B item as kw)) = Init c (normalize_item item) as kw))"
proof -
  let ?it = "normalize_item item"
  have fwd: "Init k ?it as kw \<in> set (snd (open_container B item as kw))
      \<and> (\<forall>obj. init B k ?it as kw = Inr obj \<longrightarrow> fst (open_container B item as kw) = Inr obj)"
    if "containers = pre @ k # post" "list_all (skipped B ?it as kw) pre"
      "fst (call_detect B k ?it) = Inr True"
    unfolding open_container_def that(1)
    by (simp add: probe_skip_prefix [OF that(2)] probe_match [OF that(3)] del: probe.simps
        split: sum.splits)
  have bwd: "\<exists>c \<in> set containers. fst (call_detect B c ?it) = Inr True
      \<and> init B c ?it as kw = Inr built
      \<and> last (snd (open_container B item as kw)) = Init c ?it as kw"
    if "fst (open_container B item as kw) = Inr built"
    using probe_returned_origin [of B ?it as kw containers built] that
    unfolding open_container_def by blast
  from fwd bwd show ?thesis by blast
qed

theorem open_forwards_arguments_witness:
  "Init RawContainer (PyPath ''disk.raw'') [PyOther 512] [(''vs'', PyOther 9)]
     \<in> set (snd (open_container forwarding_backends (PyStr ''disk.raw'') [PyOther 512] [(''vs'', PyOther 9)]))
   \<and> fst (open_container forwarding_backends (PyStr ''disk.raw'') [PyOther 512] [(''vs'', PyOther 9)]) =
       Inr \<lparr>cls = RawContainer, fh = PyPath ''disk.raw'', size_c = 512, vs = Some (PyOther 9)\<rparr>"
proof -
  let ?pre = "[EwfContainer, VmdkContainer, VhdxContainer, VhdContainer, QCow2Container,
      VdiContainer, SplitContainer]"
  have reg: "containers = ?pre @ RawContainer # []"
    by (simp add: containers_def)
  have it: "normalize_item (PyStr ''disk.raw'') = PyPath ''disk.raw''"
    by (simp add: normalize_item_def)
  have pre: "list_all (skipped forwarding_backends (PyPath ''disk.raw'') [PyOther 512]
      [(''vs'', PyOther 9)]) ?pre"
    by (simp add: skipped_def try_body_def call_detect_def detect_def forwarding_backends_def)
  have hit: "fst (call_detect forwarding_backends RawContainer (PyPath ''disk.raw'')) = Inr True"
    by (simp add: call_detect_def detect_def forwarding_backends_def)
  have built: "init forwarding_backends RawContainer (PyPath ''disk.raw'') [PyOther 512]
      [(''vs'', PyOther 9)] =
      Inr \<lparr>cls = RawContainer, fh = PyPath ''disk.raw'', size_c = 512, vs = Some (PyOther 9)\<rparr>"
    by (simp add: forwarding_backends_def)
  from open_forwards_arguments [of ?pre RawContainer "[]" forwarding_backends "PyStr ''disk.raw''"
      "[PyOther 512]" "[(''vs'', PyOther 9)]"] reg pre hit built
  show ?thesis unfolding it by blast
qed

text \<open>
  C9. \<^verbatim>\<open>seekable()\<close> returns true for every container instance, whatever its class and
  attributes.
\<close>

theorem seekable_always: "seekable self = True"
  by (simp add: seekable_def)

text \<open>
  C10, in the form the code satisfies. On the empty list \<^verbatim>\<open>open\<close> never invokes a
  \<^verbatim>\<open>detect_fh\<close> or a \<^verbatim>\<open>detect_path\<close> and never returns a container. When \<open>k\<close> is
  the first candidate whose class can be imported (those before it fail with an
  \<^verbatim>\<open>ImportError\<close>), \<^verbatim>\<open>open\<close> raises the \<^verbatim>\<open>ContainerError\<close> "Failed to open
  container" whose cause is the \<^verbatim>\<open>IndexError\<close> of \<^verbatim>\<open>item[0]\<close> inside \<open>k\<close>'s
  \<^verbatim>\<open>detect\<close>, and the call of \<open>k\<close>'s \<^verbatim>\<open>detect\<close> is the last thing it does.
\<close>

theorem open_empty_list:
  "filter is_detect_fh_or_path (snd (open_container B (PyList []) as kw)) = []
   \<and> (\<forall>obj. fst (open_container B (PyList []) as kw) \<noteq> Inr obj)
   \<and> (containers = pre @ k # post \<and> list_all (unavailable B) pre \<and> import_lazy B k = None
      \<longrightarrow> fst (open_container B (PyList []) as kw) =
            Inl (ContainerError (Failed_to_open_container (PyList []))
              (Some (IndexError ''list index out of range'')))
          \<and> last (snd (open_container B (PyList []) as kw)) = Detect k (PyList []))"
proof -
  have it: "normalize_item (PyList []) = PyList []"
    by (simp add: normalize_item_def)
  have quiet: "filter is_detect_fh_or_path (snd (open_container B (PyList []) as kw)) = []"
    unfolding open_container_def it
    by (auto simp: filter_empty_conv dest: probe_empty_list_events)
  have raises: "\<forall>obj. fst (open_container B (PyList []) as kw) \<noteq> Inr obj"
    unfolding open_container_def it by (simp add: probe_empty_list_raises)
  have index: "fst (open_container B (PyList []) as kw) =
        Inl (ContainerError (Failed_to_open_container (PyList []))
          (Some (IndexError ''list index out of range'')))
      \<and> last (snd (open_container B (PyList []) as kw)) = Detect k (PyList [])"
    if "containers = pre @ k # post" "list_all (unavailable B) pre" "import_lazy B k = None"
  proof -
    have sk: "list_all (skipped B (PyList []) as kw) pre"
      using that(2) by (simp add: list_all_iff unavailable_skipped)
    have body: "try_body B k (PyList []) as kw =
        (Inl (IndexError ''list index out of range''), [Detect k (PyList [])])"
      by (simp add: try_body_empty_list that(3))
    show ?thesis
      unfolding open_container_def it that(1)
      by (simp add: probe_skip_prefix [OF sk] body)
  qed
  from quiet raises index show ?thesis by blast
qed

theorem open_empty_list_witness:
  "filter is_detect_fh_or_path (snd (open_container no_ewf_backends (PyList []) [] [])) = []
   \<and> fst (open_container no_ewf_backends (PyList []) [] []) =
       Inl (ContainerError (Failed_to_open_container (PyList []))
         (Some (IndexError ''list index out of range'')))
   \<and> last (snd (open_container no_ewf_backends (PyList []) [] [])) = Detect VmdkContainer (PyList [])"
proof -
  have reg: "containers = [EwfContainer] @ VmdkContainer #
      [VhdxContainer, VhdContainer, QCow2Container, VdiContainer, SplitContainer, RawContainer]"
    by (simp add: containers_def)
  have pre: "list_all (unavailable no_ewf_backends) [EwfContainer]"
    by (simp add: unavailable_def no_ewf_backends_def)
  have avail: "import_lazy no_ewf_backends VmdkContainer = None"
    by (simp add: no_ewf_backends_def)
  from open_empty_list [of no_ewf_backends "[]" "[]" "[EwfContainer]" VmdkContainer] reg pre avail
  show ?thesis by blast
qed

theorem open_empty_list_counterexample:
  "fst (open_container no_backends (PyList []) [] []) =
     Inl (ContainerError (Failed_to_detect_container_for (PyList [])) None)"
  by (simp add: open_container_def containers_def try_body_def call_detect_def
      normalize_item_def no_backends_def)

end
